theory Spec2Isabelle
  imports Main "HOL-Library.Word"
begin

section \<open>The replicated commands of command.go\<close>

text \<open>
  The file command.go declares six commands (Set, TestAndSet, Get, Delete, Watch, Join),
  each with a \<open>CommandName\<close> and an \<open>Apply\<close> method. \<open>Apply\<close> works on collaborators that
  are declared elsewhere: the store \<open>etcdStore\<close>, the consensus server handed in as
  argument, the routing directory behind \<open>addNameToURL\<close>, the helpers \<open>machineNum\<close>
  and \<open>maxClusterSize\<close>, and the library functions \<open>path.Join\<close> and \<open>json.Marshal\<close>.
  They are parameters of the model (record \<open>collaborators\<close>); the state they work on is
  threaded through \<open>Apply\<close> in a record \<open>world\<close>, together with the trace of the calls
  \<open>Apply\<close> makes, in the order it makes them. A call of \<open>debug\<close> is an entry of the trace
  and nothing else.
\<close>

subsection \<open>Values\<close>

text \<open>\<open>time.Time\<close>: the instant \<open>time.Unix(sec, nsec)\<close>.\<close>

datatype gotime = Unix int int

text \<open>
  Go's \<open>error\<close> values: \<open>etcdErr.NewError(code, cause)\<close>, \<open>fmt.Errorf(msg)\<close>, and the
  errors that a collaborator (store, consensus server, JSON encoder) makes up itself.
\<close>

datatype error = EtcdError int string | Errorf string | Foreign string

text \<open>
  The pair \<open>(interface{}, error)\<close> that \<open>Apply\<close> returns: a payload of bytes or \<open>nil\<close>, and
  an error or \<open>nil\<close>.
\<close>

type_synonym reply = "string option \<times> error option"

subsection \<open>The commands\<close>

datatype Command =
    SetCommand (Key: string) (Value: string) (ExpireTime: gotime)
  | TestAndSetCommand (Key: string) (Value: string) (PrevValue: string) (ExpireTime: gotime)
  | GetCommand (Key: string)
  | DeleteCommand (Key: string)
  | WatchCommand (Key: string) (SinceIndex: "64 word")
  | JoinCommand (Name: string) (RaftURL: string) (EtcdURL: string)

definition commandPrefix :: string where
  "commandPrefix = ''etcd:''"

definition commandName :: "string \<Rightarrow> string" where
  "commandName name = commandPrefix @ name"

fun CommandName :: "Command \<Rightarrow> string" where
  "CommandName (SetCommand k v t) = commandName ''set''"
| "CommandName (TestAndSetCommand k v p t) = commandName ''testAndSet''"
| "CommandName (GetCommand k) = commandName ''get''"
| "CommandName (DeleteCommand k) = commandName ''delete''"
| "CommandName (WatchCommand k i) = commandName ''watch''"
| "CommandName (JoinCommand n r e) = commandName ''join''"

subsection \<open>Collaborators and the world they act on\<close>

text \<open>
  One event for each call that \<open>Apply\<close> makes on a collaborator, with the arguments of
  the call. A watcher is named by the number it was created with.
\<close>

datatype event =
    Store_Set string string gotime "64 word"
  | Store_TestAndSet string string string gotime "64 word"
  | Store_Get string
  | Store_Delete string "64 word"
  | Store_RawGet string
  | Store_NewWatcher
  | Store_AddWatcher string nat "64 word"
  | Chan_Receive nat
  | Raft_CommitIndex
  | Raft_AddPeer string string
  | MachineNum
  | AddNameToURL string string string
  | Debug "string list"

text \<open>
  The collaborators, none of which is declared in command.go. Their signatures are read
  off the calls, their behaviour is left open. The store's \<open>Get\<close> and \<open>RawGet\<close>, the
  server's \<open>CommitIndex\<close> and \<open>machineNum\<close> are reads: they return a value and leave the
  state as it is. \<open>Set\<close>, \<open>TestAndSet\<close>, \<open>Delete\<close>, \<open>AddWatcher\<close>, \<open>AddPeer\<close> and
  \<open>addNameToURL\<close> return the new state of what they act on.
\<close>

record ('st, 'rf, 'nm, 'resp) collaborators =
  store_Set :: "string \<Rightarrow> string \<Rightarrow> gotime \<Rightarrow> 64 word \<Rightarrow> 'st \<Rightarrow> reply \<times> 'st"
  store_TestAndSet :: "string \<Rightarrow> string \<Rightarrow> string \<Rightarrow> gotime \<Rightarrow> 64 word \<Rightarrow> 'st \<Rightarrow> reply \<times> 'st"
  store_Get :: "string \<Rightarrow> 'st \<Rightarrow> reply"
  store_Delete :: "string \<Rightarrow> 64 word \<Rightarrow> 'st \<Rightarrow> reply \<times> 'st"
  store_RawGet :: "string \<Rightarrow> 'st \<Rightarrow> 'resp option \<times> error option"
  store_AddWatcher :: "string \<Rightarrow> nat \<Rightarrow> 64 word \<Rightarrow> 'st \<Rightarrow> 'st"
  raft_CommitIndex :: "'rf \<Rightarrow> 64 word"
  raft_AddPeer :: "string \<Rightarrow> string \<Rightarrow> 'rf \<Rightarrow> error option \<times> 'rf"
  machineNum :: "'st \<Rightarrow> 'rf \<Rightarrow> 'nm \<Rightarrow> int"
  maxClusterSize :: int
  addNameToURL :: "string \<Rightarrow> string \<Rightarrow> string \<Rightarrow> 'nm \<Rightarrow> 'nm"
  path_Join :: "string \<Rightarrow> string \<Rightarrow> string"
  json_Marshal :: "'resp \<Rightarrow> reply"

text \<open>
  The state of one node: the store, the consensus server, the routing directory, the
  number of watchers created so far, what each watcher's channel is going to deliver
  (\<open>None\<close> is the \<open>nil\<close> delivery; the empty list is a channel on which nothing ever
  arrives), and the trace of calls.
\<close>

record ('st, 'rf, 'nm, 'resp) world =
  etcdStore :: 'st
  raftServer :: 'rf
  namesMap :: 'nm
  watchers :: nat
  deliveries :: "nat \<Rightarrow> 'resp option list"
  trace :: "event list"

definition call :: "event \<Rightarrow> ('st, 'rf, 'nm, 'resp) world \<Rightarrow> ('st, 'rf, 'nm, 'resp) world" where
  "call e w = w\<lparr>trace := trace w @ [e]\<rparr>"

subsection \<open>Apply\<close>

text \<open>
  The body of \<open>WatchCommand.Apply\<close>. It ends in one of two ways, in both with the world
  as the calls made so far have left it: it returns a reply, or it stays in the receive
  \<open>res := <-watcher.C\<close> for ever because nothing is delivered. The watcher is created and
  registered before the receive, so on every path.
\<close>

datatype ('st, 'rf, 'nm, 'resp) outcome =
    Returns reply "('st, 'rf, 'nm, 'resp) world"
  | Blocks "('st, 'rf, 'nm, 'resp) world"

definition WatchCommand_Apply ::
  "('st, 'rf, 'nm, 'resp) collaborators \<Rightarrow> string \<Rightarrow> 64 word \<Rightarrow> ('st, 'rf, 'nm, 'resp) world
     \<Rightarrow> ('st, 'rf, 'nm, 'resp) outcome" where
  "WatchCommand_Apply env key sinceIndex w =
     (let watcher = watchers w;
          w1 = call Store_NewWatcher (w\<lparr>watchers := Suc (watchers w)\<rparr>);
          w2 = call (Store_AddWatcher key watcher sinceIndex) w1;
          w3 = w2\<lparr>etcdStore := store_AddWatcher env key watcher sinceIndex (etcdStore w2)\<rparr>;
          w4 = call (Chan_Receive watcher) w3
      in case deliveries w4 watcher of
           [] \<Rightarrow> Blocks w4
         | res # later \<Rightarrow>
             (let w5 = w4\<lparr>deliveries := (deliveries w4)(watcher := later)\<rparr>
              in case res of
                   None \<Rightarrow> Returns (None, Some (Errorf ''Clearing watch'')) w5
                 | Some r \<Rightarrow> Returns (json_Marshal env r) w5))"

text \<open>
  \<open>Apply\<close> returns the reply and the world it leaves, or \<open>None\<close> when it never returns,
  which only the Watch command can do. Go evaluates the arguments of a call before the
  call, so \<open>server.CommitIndex()\<close> is read before the store operation that takes it.
\<close>

fun Apply ::
  "('st, 'rf, 'nm, 'resp) collaborators \<Rightarrow> Command \<Rightarrow> ('st, 'rf, 'nm, 'resp) world
     \<Rightarrow> (reply \<times> ('st, 'rf, 'nm, 'resp) world) option" where
  "Apply env (SetCommand key val expireTime) w =
     (let w1 = call Raft_CommitIndex w;
          index = raft_CommitIndex env (raftServer w1);
          w2 = call (Store_Set key val expireTime index) w1;
          (res, st) = store_Set env key val expireTime index (etcdStore w2)
      in Some (res, w2\<lparr>etcdStore := st\<rparr>))"
| "Apply env (TestAndSetCommand key val prevValue expireTime) w =
     (let w1 = call Raft_CommitIndex w;
          index = raft_CommitIndex env (raftServer w1);
          w2 = call (Store_TestAndSet key prevValue val expireTime index) w1;
          (res, st) = store_TestAndSet env key prevValue val expireTime index (etcdStore w2)
      in Some (res, w2\<lparr>etcdStore := st\<rparr>))"
| "Apply env (GetCommand key) w =
     (let w1 = call (Store_Get key) w
      in Some (store_Get env key (etcdStore w1), w1))"
| "Apply env (DeleteCommand key) w =
     (let w1 = call Raft_CommitIndex w;
          index = raft_CommitIndex env (raftServer w1);
          w2 = call (Store_Delete key index) w1;
          (res, st) = store_Delete env key index (etcdStore w2)
      in Some (res, w2\<lparr>etcdStore := st\<rparr>))"
| "Apply env (WatchCommand key sinceIndex) w =
     (case WatchCommand_Apply env key sinceIndex w of
        Returns res w' \<Rightarrow> Some (res, w')
      | Blocks w' \<Rightarrow> None)"
| "Apply env (JoinCommand name raftURL etcdURL) w =
     (let w1 = call (Store_RawGet (path_Join env ''_etcd/machines'' name)) w;
          (response, _) = store_RawGet env (path_Join env ''_etcd/machines'' name) (etcdStore w1)
      in if response \<noteq> None then Some ((Some ''join success'', None), w1)
         else
           let w2 = call MachineNum w1;
               num = machineNum env (etcdStore w2) (raftServer w2) (namesMap w2)
           in if num = maxClusterSize env then
                (let w3 = call (Debug [''Reject join request from '', name]) w2
                 in Some ((Some ''join fail'', Some (EtcdError 103 '''')), w3))
              else
                let w3 = call (AddNameToURL name raftURL etcdURL) w2;
                    w4 = w3\<lparr>namesMap := addNameToURL env name raftURL etcdURL (namesMap w3)\<rparr>;
                    w5 = call (Raft_AddPeer name '''') w4;
                    (err, rf) = raft_AddPeer env name '''' (raftServer w5);
                    w6 = w5\<lparr>raftServer := rf\<rparr>;
                    key = path_Join env ''_etcd/machines'' name;
                    val = ''raft='' @ raftURL @ ''&etcd='' @ etcdURL;
                    w7 = call Raft_CommitIndex w6;
                    index = raft_CommitIndex env (raftServer w7);
                    w8 = call (Store_Set key val (Unix 0 0) index) w7;
                    (_, st) = store_Set env key val (Unix 0 0) index (etcdStore w8)
                in Some ((Some ''join success'', err), w8\<lparr>etcdStore := st\<rparr>))"


text \<open>
  Committed commands are applied one at a time, each on the world the one before it
  left; \<open>Apply_seq\<close> collects the replies. It returns nothing when one of them blocks
  for ever.
\<close>

fun Apply_seq ::
  "('st, 'rf, 'nm, 'resp) collaborators \<Rightarrow> Command list \<Rightarrow> ('st, 'rf, 'nm, 'resp) world
     \<Rightarrow> (reply list \<times> ('st, 'rf, 'nm, 'resp) world) option" where
  "Apply_seq env [] w = Some ([], w)"
| "Apply_seq env (c # cs) w =
     (case Apply env c w of
        None \<Rightarrow> None
      | Some (rep, w1) \<Rightarrow>
          (case Apply_seq env cs w1 of
             None \<Rightarrow> None
           | Some (reps, w2) \<Rightarrow> Some (rep # reps, w2)))"

subsection \<open>Wire names of the fields\<close>

text \<open>
  The fields of each command struct as command.go declares them: the Go field name and
  the struct tag between the back quotes, character by character.
\<close>

fun struct_fields :: "Command \<Rightarrow> (string \<times> string) list" where
  \<open>struct_fields (SetCommand k v t) =
     [(''Key'', ''json:"key"''), (''Value'', ''json:"value"''),
      (''ExpireTime'', ''json:"expireTime"'')]\<close>
| \<open>struct_fields (TestAndSetCommand k v p t) =
     [(''Key'', ''json:"key"''), (''Value'', ''json:"value"''),
      (''PrevValue'', ''json: prevValue''), (''ExpireTime'', ''json:"expireTime"'')]\<close>
| \<open>struct_fields (GetCommand k) = [(''Key'', ''json:"key"'')]\<close>
| \<open>struct_fields (DeleteCommand k) = [(''Key'', ''json:"key"'')]\<close>
| \<open>struct_fields (WatchCommand k i) =
     [(''Key'', ''json:"key"''), (''SinceIndex'', ''json:"sinceIndex"'')]\<close>
| \<open>struct_fields (JoinCommand n r e) =
     [(''Name'', ''json:"name"''), (''RaftURL'', ''json:"raftURL"''),
      (''EtcdURL'', ''json:"etcdURL"'')]\<close>

text \<open>
  How Go's library reads a struct tag (\<open>reflect.StructTag.Lookup\<close>): a tag is a sequence
  of \<open>name:"value"\<close> pairs separated by spaces. The name runs up to the colon and holds no
  space, quote or control character; the colon must be followed at once by the opening
  quote; the value runs to the closing quote, a backslash protecting the character after
  it. The first pair that does not have this form ends the search.
\<close>

definition tag_name_char :: "char \<Rightarrow> bool" where
  "tag_name_char c \<longleftrightarrow>
     (32::nat) < of_char c \<and> c \<noteq> CHR '':'' \<and> c \<noteq> CHR 0x22 \<and> c \<noteq> CHR 0x7F"

text \<open>
  \<open>scan_quoted\<close> starts behind the opening quote and returns the characters up to the
  closing quote and what follows it, or \<open>None\<close> when the quote is never closed.
\<close>

fun scan_quoted :: "string \<Rightarrow> (string \<times> string) option" where
  "scan_quoted [] = None"
| "scan_quoted (c # cs) =
     (if c = CHR 0x22 then Some ([], cs)
      else if c = CHR 0x5C then
        (case cs of
           [] \<Rightarrow> None
         | d # ds \<Rightarrow> map_option (\<lambda>(q, rest). (c # d # q, rest)) (scan_quoted ds))
      else map_option (\<lambda>(q, rest). (c # q, rest)) (scan_quoted cs))"

text \<open>
  \<open>strconv.Unquote\<close> on the quoted value, for values without a backslash: such a value
  stands for itself unless it holds a line feed. Escape sequences are outside this model
  (no tag of command.go has one) and are answered \<open>None\<close>.
\<close>

definition Unquote :: "string \<Rightarrow> string option" where
  "Unquote q = (if CHR 0x0A \<in> set q \<or> CHR 0x5C \<in> set q then None else Some q)"

lemma scan_quoted_shorter: "scan_quoted s = Some (q, rest) \<Longrightarrow> length rest < length s"
proof (induction s arbitrary: q rest rule: scan_quoted.induct)
  case 1
  then show ?case by simp
next
  case (2 c cs)
  then show ?case
    by (fastforce split: if_splits list.splits)
qed

function StructTag_Lookup :: "string \<Rightarrow> string \<Rightarrow> string option" where
  "StructTag_Lookup tag key =
     (let tag1 = dropWhile (\<lambda>c. c = CHR '' '') tag;
          name = takeWhile tag_name_char tag1
      in if tag1 = [] \<or> name = [] then None
         else case dropWhile tag_name_char tag1 of
                c1 # c2 # tag2 \<Rightarrow>
                  if c1 = CHR '':'' \<and> c2 = CHR 0x22 then
                    (case scan_quoted tag2 of
                       None \<Rightarrow> None
                     | Some (qvalue, tag3) \<Rightarrow>
                         if key = name then Unquote qvalue else StructTag_Lookup tag3 key)
                  else None
              | _ \<Rightarrow> None)"
  by pat_completeness auto
termination
proof (relation "measure (\<lambda>(tag, key). length tag)")
  show "wf (measure (\<lambda>(tag, key). length tag))"
    by simp
next
  fix tag key :: string and tag1 name rest c1 rest1 c2 tag2 sq qvalue tag3
  assume tag1: "tag1 = dropWhile (\<lambda>c. c = CHR '' '') tag"
    and rest: "dropWhile tag_name_char tag1 = c1 # rest1" "rest1 = c2 # tag2"
    and sq: "scan_quoted tag2 = Some sq" "(qvalue, tag3) = sq"
  have "length tag3 < length tag2"
    using sq scan_quoted_shorter [of tag2 qvalue tag3] by simp
  also have "length tag2 < length (dropWhile tag_name_char tag1)"
    using rest by simp
  also have "\<dots> \<le> length tag1"
    by (rule length_dropWhile_le)
  also have "\<dots> \<le> length tag"
    unfolding tag1 by (rule length_dropWhile_le)
  finally show "((tag3, key), (tag, key)) \<in> measure (\<lambda>(tag, key). length tag)"
    by simp
qed

text \<open>\<open>reflect.StructTag.Get\<close>: the value found, or the empty string.\<close>

definition StructTag_Get :: "string \<Rightarrow> string \<Rightarrow> string" where
  "StructTag_Get tag key = (case StructTag_Lookup tag key of Some v \<Rightarrow> v | None \<Rightarrow> [])"

text \<open>
  How \<open>encoding/json\<close> names a field: an unexported field and a field tagged \<open>-\<close> are
  left out; otherwise the name is the tag's value up to the first comma when that is a
  valid name, and the Go field name when it is not (an empty value is not valid). Letters
  and digits are the ASCII ones here.
\<close>

definition isLetterOrDigit :: "char \<Rightarrow> bool" where
  "isLetterOrDigit c \<longleftrightarrow>
     (let n = (of_char c :: nat)
      in (48 \<le> n \<and> n \<le> 57) \<or> (65 \<le> n \<and> n \<le> 90) \<or> (97 \<le> n \<and> n \<le> 122))"

definition isValidTag :: "string \<Rightarrow> bool" where
  "isValidTag s \<longleftrightarrow>
     s \<noteq> [] \<and> list_all (\<lambda>c. c \<in> set ''!#$%&()*+-./:;<=>?@[]^_{|}~ '' \<or> isLetterOrDigit c) s"

definition exported :: "string \<Rightarrow> bool" where
  "exported field \<longleftrightarrow>
     (case field of [] \<Rightarrow> False | c # _ \<Rightarrow> (65::nat) \<le> of_char c \<and> of_char c \<le> (90::nat))"

definition json_name :: "string \<times> string \<Rightarrow> string option" where
  "json_name f =
     (if exported (fst f) then
        (let tag = StructTag_Get (snd f) ''json''
         in if tag = ''-'' then None
            else
              let name = takeWhile (\<lambda>c. c \<noteq> CHR '','') tag
              in if isValidTag name then Some name else Some (fst f))
      else None)"

definition wire_names :: "Command \<Rightarrow> string list" where
  "wire_names c = List.map_filter json_name (struct_fields c)"

subsection \<open>A small instance of the collaborators\<close>

text \<open>
  An instance on which \<open>Apply\<close> can be evaluated: the store is an association list from
  keys to values (the newest binding first), the consensus server is its peer list and
  its commit index, the routing directory is a list of registrations. The membership
  count is the number of keys under \<open>_etcd/machines/\<close>, the maximum cluster size is 3,
  and adding a peer that is already in the peer list fails.
\<close>

type_synonym example_store = "(string \<times> string) list"
type_synonym example_raft = "string list \<times> 64 word"
type_synonym example_names = "(string \<times> string \<times> string) list"

definition example_lookup :: "string \<Rightarrow> example_store \<Rightarrow> string option \<times> error option" where
  "example_lookup k st =
     (case map_of st k of
        None \<Rightarrow> (None, Some (EtcdError 100 k))
      | Some v \<Rightarrow> (Some v, None))"

definition example_env :: "(example_store, example_raft, example_names, string) collaborators" where
  "example_env =
     \<lparr> store_Set = (\<lambda>k v t i st. ((Some v, None), (k, v) # st)),
       store_TestAndSet = (\<lambda>k p v t i st.
          if map_of st k = Some p then ((Some v, None), (k, v) # st)
          else ((None, Some (EtcdError 101 k)), st)),
       store_Get = example_lookup,
       store_Delete = (\<lambda>k i st.
          if map_of st k = None then ((None, Some (EtcdError 100 k)), st)
          else ((map_of st k, None), filter (\<lambda>kv. fst kv \<noteq> k) st)),
       store_RawGet = example_lookup,
       store_AddWatcher = (\<lambda>k n i st. st),
       raft_CommitIndex = snd,
       raft_AddPeer = (\<lambda>n c rf.
          if n \<in> set (fst rf) then (Some (Foreign ''duplicate peer''), rf)
          else (None, (n # fst rf, snd rf))),
       machineNum = (\<lambda>st rf nm.
          int (length (filter (\<lambda>kv. take 15 (fst kv) = ''_etcd/machines/'') st))),
       maxClusterSize = 3,
       addNameToURL = (\<lambda>n r e nm. (n, r, e) # nm),
       path_Join = (\<lambda>a b. a @ ''/'' @ b),
       json_Marshal = (\<lambda>r. (Some (''{'' @ r @ ''}''), None)) \<rparr>"

definition example_world ::
  "example_store \<Rightarrow> string list \<Rightarrow> (example_store, example_raft, example_names, string) world" where
  "example_world st peers =
     \<lparr> etcdStore = st, raftServer = (peers, 7), namesMap = [], watchers = 0,
       deliveries = (\<lambda>n. []), trace = [] \<rparr>"

definition two_machines :: example_store where
  "two_machines =
     [(''_etcd/machines/n1'', ''raft=r1&etcd=e1''), (''_etcd/machines/n2'', ''raft=r2&etcd=e2'')]"

definition three_machines :: example_store where
  "three_machines = (''_etcd/machines/n3'', ''raft=r3&etcd=e3'') # two_machines"

definition four_machines :: example_store where
  "four_machines = (''_etcd/machines/n4'', ''raft=r4&etcd=e4'') # three_machines"

section \<open>Properties\<close>

lemmas example_defs = example_env_def example_world_def example_lookup_def
  two_machines_def three_machines_def four_machines_def

subsection \<open>The three paths of Join\<close>

text \<open>
  Join looks the member's record up first. With a record it answers at once; without
  one it compares the membership count with the maximum and either rejects or goes
  through registration, peer addition and the store write.
\<close>

lemma Apply_Join_replay:
  assumes "fst (store_RawGet env (path_Join env ''_etcd/machines'' n) (etcdStore w)) \<noteq> None"
  shows "Apply env (JoinCommand n r e) w =
           Some ((Some ''join success'', None),
                 w\<lparr>trace := trace w @ [Store_RawGet (path_Join env ''_etcd/machines'' n)]\<rparr>)"
  using assms by (simp add: call_def Let_def case_prod_beta)

lemma Apply_Join_full:
  assumes "fst (store_RawGet env (path_Join env ''_etcd/machines'' n) (etcdStore w)) = None"
    and "machineNum env (etcdStore w) (raftServer w) (namesMap w) = maxClusterSize env"
  shows "Apply env (JoinCommand n r e) w =
           Some ((Some ''join fail'', Some (EtcdError 103 '''')),
                 w\<lparr>trace := trace w @ [Store_RawGet (path_Join env ''_etcd/machines'' n), MachineNum,
                                        Debug [''Reject join request from '', n]]\<rparr>)"
  using assms by (simp add: call_def Let_def case_prod_beta)

lemma Apply_Join_accept:
  assumes "fst (store_RawGet env (path_Join env ''_etcd/machines'' n) (etcdStore w)) = None"
    and "machineNum env (etcdStore w) (raftServer w) (namesMap w) \<noteq> maxClusterSize env"
  shows "Apply env (JoinCommand n r e) w =
           Some ((Some ''join success'', fst (raft_AddPeer env n '''' (raftServer w))),
                 w\<lparr>namesMap := addNameToURL env n r e (namesMap w),
                   raftServer := snd (raft_AddPeer env n '''' (raftServer w)),
                   etcdStore := snd (store_Set env (path_Join env ''_etcd/machines'' n)
                                      (''raft='' @ r @ ''&etcd='' @ e) (Unix 0 0)
                                      (raft_CommitIndex env (snd (raft_AddPeer env n '''' (raftServer w))))
                                      (etcdStore w)),
                   trace := trace w @
                     [Store_RawGet (path_Join env ''_etcd/machines'' n), MachineNum,
                      AddNameToURL n r e, Raft_AddPeer n '''', Raft_CommitIndex,
                      Store_Set (path_Join env ''_etcd/machines'' n)
                        (''raft='' @ r @ ''&etcd='' @ e) (Unix 0 0)
                        (raft_CommitIndex env (snd (raft_AddPeer env n '''' (raftServer w))))]\<rparr>)"
  using assms by (simp add: call_def Let_def case_prod_beta)

subsection \<open>Join at capacity\<close>

text \<open>
  C1, as the claim states it, does not hold: the claim rejects a Join from an unseen
  name whenever the membership count is at or above the maximum cluster size, but
  \<open>Apply\<close> compares with \<open>num == maxClusterSize\<close>. On a store with four membership
  records and a maximum of three, the Join of a fifth, unseen member is accepted: the
  reply is the success payload without an error, the member is added as a peer and its
  record is written.
\<close>

theorem join_above_capacity_counterexample:
  "fst (store_RawGet example_env (path_Join example_env ''_etcd/machines'' ''n5'')
         (etcdStore (example_world four_machines []))) = None
   \<and> maxClusterSize example_env \<le> machineNum example_env four_machines ([], 7) []
   \<and> map_option fst (Apply example_env (JoinCommand ''n5'' ''r5'' ''e5'') (example_world four_machines []))
       = Some (Some ''join success'', None)
   \<and> map_option (\<lambda>x. raftServer (snd x))
        (Apply example_env (JoinCommand ''n5'' ''r5'' ''e5'') (example_world four_machines []))
       = Some ([''n5''], 7)
   \<and> map_option (\<lambda>x. etcdStore (snd x))
        (Apply example_env (JoinCommand ''n5'' ''r5'' ''e5'') (example_world four_machines []))
       = Some ((''_etcd/machines/n5'', ''raft=r5&etcd=e5'') # four_machines)"
  by (simp add: example_defs call_def Let_def)

text \<open>
  C1, amended: for every Join command whose name has no membership record, if the
  membership count equals the configured maximum cluster size, \<open>Apply\<close> returns the
  payload \<open>join fail\<close> together with the error of code 103, and changes nothing: the
  store, the consensus server and the routing directory are as before, and the only
  calls made are the record lookup, the membership count and the debug message.
\<close>

theorem join_at_capacity_rejected:
  assumes "fst (store_RawGet env (path_Join env ''_etcd/machines'' n) (etcdStore w)) = None"
    and "machineNum env (etcdStore w) (raftServer w) (namesMap w) = maxClusterSize env"
  shows "Apply env (JoinCommand n r e) w =
           Some ((Some ''join fail'', Some (EtcdError 103 '''')),
                 w\<lparr>trace := trace w @ [Store_RawGet (path_Join env ''_etcd/machines'' n), MachineNum,
                                        Debug [''Reject join request from '', n]]\<rparr>)"
  by (rule Apply_Join_full [OF assms])

theorem join_at_capacity_rejected_witness:
  "fst (store_RawGet example_env (path_Join example_env ''_etcd/machines'' ''n4'')
         (etcdStore (example_world three_machines [''n1'', ''n2'', ''n3'']))) = None
   \<and> machineNum example_env three_machines ([''n1'', ''n2'', ''n3''], 7) [] = maxClusterSize example_env
   \<and> Apply example_env (JoinCommand ''n4'' ''r4'' ''e4'')
        (example_world three_machines [''n1'', ''n2'', ''n3'']) =
       Some ((Some ''join fail'', Some (EtcdError 103 '''')),
             \<lparr> etcdStore = three_machines, raftServer = ([''n1'', ''n2'', ''n3''], 7), namesMap = [],
               watchers = 0, deliveries = (\<lambda>n. []),
               trace = [Store_RawGet ''_etcd/machines/n4'', MachineNum,
                        Debug [''Reject join request from '', ''n4'']] \<rparr>)"
proof -
  let ?w = "example_world three_machines [''n1'', ''n2'', ''n3'']"
  have h1: "fst (store_RawGet example_env (path_Join example_env ''_etcd/machines'' ''n4'')
              (etcdStore ?w)) = None"
    by (simp add: example_defs)
  have h2: "machineNum example_env (etcdStore ?w) (raftServer ?w) (namesMap ?w) =
              maxClusterSize example_env"
    by (simp add: example_defs)
  show ?thesis
    using h1 h2 join_at_capacity_rejected [OF h1 h2, of "''r4''" "''e4''"]
    by (simp add: example_defs)
qed

subsection \<open>Join of a member that has a record\<close>

text \<open>
  C2: for every Join command whose name has a membership record at the namespaced key,
  \<open>Apply\<close> returns success at once: the only call it makes is the record lookup (no
  membership count, no registration, no peer addition, no store write), and the world
  is as before. So the same Join applied twice returns success both times, and after the
  second the store (hence the membership count), the peer list and the routing directory
  are what they were.
\<close>

theorem join_replay_idempotent:
  assumes "fst (store_RawGet env (path_Join env ''_etcd/machines'' n) (etcdStore w)) \<noteq> None"
  shows "Apply env (JoinCommand n r e) w =
           Some ((Some ''join success'', None),
                 w\<lparr>trace := trace w @ [Store_RawGet (path_Join env ''_etcd/machines'' n)]\<rparr>)
         \<and> Apply_seq env [JoinCommand n r e, JoinCommand n r e] w =
           Some ([(Some ''join success'', None), (Some ''join success'', None)],
                 w\<lparr>trace := trace w @ [Store_RawGet (path_Join env ''_etcd/machines'' n),
                                        Store_RawGet (path_Join env ''_etcd/machines'' n)]\<rparr>)"
proof -
  let ?key = "path_Join env ''_etcd/machines'' n"
  let ?w1 = "w\<lparr>trace := trace w @ [Store_RawGet ?key]\<rparr>"
  have first: "Apply env (JoinCommand n r e) w = Some ((Some ''join success'', None), ?w1)"
    by (rule Apply_Join_replay [OF assms])
  have "fst (store_RawGet env ?key (etcdStore ?w1)) \<noteq> None"
    using assms by simp
  then have second: "Apply env (JoinCommand n r e) ?w1 =
      Some ((Some ''join success'', None), ?w1\<lparr>trace := trace ?w1 @ [Store_RawGet ?key]\<rparr>)"
    by (rule Apply_Join_replay)
  show ?thesis
    using first second by simp
qed

theorem join_replay_idempotent_witness:
  "fst (store_RawGet example_env (path_Join example_env ''_etcd/machines'' ''n2'')
         (etcdStore (example_world three_machines [''n1'', ''n2'', ''n3'']))) \<noteq> None
   \<and> map_option fst
        (Apply_seq example_env [JoinCommand ''n2'' ''r2'' ''e2'', JoinCommand ''n2'' ''r2'' ''e2'']
          (example_world three_machines [''n1'', ''n2'', ''n3''])) =
       Some [(Some ''join success'', None), (Some ''join success'', None)]
   \<and> map_option (\<lambda>x. (etcdStore (snd x), raftServer (snd x), namesMap (snd x), trace (snd x)))
        (Apply_seq example_env [JoinCommand ''n2'' ''r2'' ''e2'', JoinCommand ''n2'' ''r2'' ''e2'']
          (example_world three_machines [''n1'', ''n2'', ''n3''])) =
       Some (three_machines, ([''n1'', ''n2'', ''n3''], 7), [],
             [Store_RawGet ''_etcd/machines/n2'', Store_RawGet ''_etcd/machines/n2''])"
proof -
  let ?w = "example_world three_machines [''n1'', ''n2'', ''n3'']"
  have h: "fst (store_RawGet example_env (path_Join example_env ''_etcd/machines'' ''n2'')
              (etcdStore ?w)) \<noteq> None"
    by (simp add: example_defs)
  show ?thesis
    using h join_replay_idempotent [OF h, of "''r2''" "''e2''"]
    by (simp add: example_defs call_def Let_def)
qed

text \<open>
  The same after a first Join that is accepted, on any store that returns a record once
  it has been set: the second Join is a replay and changes nothing.
\<close>

lemma join_twice_after_accept:
  assumes law: "\<And>k v t i st. fst (store_RawGet env k (snd (store_Set env k v t i st))) \<noteq> None"
    and "fst (store_RawGet env (path_Join env ''_etcd/machines'' n) (etcdStore w)) = None"
    and "machineNum env (etcdStore w) (raftServer w) (namesMap w) \<noteq> maxClusterSize env"
    and "Apply env (JoinCommand n r e) w = Some (reply1, w1)"
  shows "fst reply1 = Some ''join success''
         \<and> Apply env (JoinCommand n r e) w1 =
             Some ((Some ''join success'', None),
                   w1\<lparr>trace := trace w1 @ [Store_RawGet (path_Join env ''_etcd/machines'' n)]\<rparr>)"
proof -
  have eq: "Some (reply1, w1) = Apply env (JoinCommand n r e) w"
    using assms(4) by simp
  have "fst (store_RawGet env (path_Join env ''_etcd/machines'' n) (etcdStore w1)) \<noteq> None"
    using eq law unfolding Apply_Join_accept [OF assms(2,3)] by auto
  then have "Apply env (JoinCommand n r e) w1 =
             Some ((Some ''join success'', None),
                   w1\<lparr>trace := trace w1 @ [Store_RawGet (path_Join env ''_etcd/machines'' n)]\<rparr>)"
    by (rule Apply_Join_replay)
  moreover have "fst reply1 = Some ''join success''"
    using eq unfolding Apply_Join_accept [OF assms(2,3)] by auto
  ultimately show ?thesis by simp
qed

text \<open>
  Scenario B of the specification on the small instance: with two members and a maximum
  of three, the Join of \<open>nodeX\<close> succeeds and the count becomes three; the same Join
  again succeeds and the count stays three; the Join of \<open>nodeY\<close> is rejected with error
  103 and the count stays three.
\<close>

lemma scenario_B:
  "map_option (\<lambda>x. (fst x, map fst (etcdStore (snd x)), fst (raftServer (snd x)),
                      machineNum example_env (etcdStore (snd x)) (raftServer (snd x)) (namesMap (snd x))))
     (Apply_seq example_env
        [JoinCommand ''nodeX'' ''rX'' ''eX'', JoinCommand ''nodeX'' ''rX'' ''eX'',
         JoinCommand ''nodeY'' ''rY'' ''eY'']
        (example_world two_machines [''n1'', ''n2''])) =
   Some ([(Some ''join success'', None), (Some ''join success'', None),
          (Some ''join fail'', Some (EtcdError 103 ''''))],
         [''_etcd/machines/nodeX'', ''_etcd/machines/n1'', ''_etcd/machines/n2''],
         [''nodeX'', ''n1'', ''n2''], 3)"
  by (simp add: example_defs call_def Let_def)

subsection \<open>An accepted Join\<close>

text \<open>
  C3: for every accepted Join command (no record, membership count different from the
  maximum, which covers every count below it), \<open>Apply\<close> makes its calls in this order
  after the lookup and the count: it registers the name with both URLs in the routing
  directory, adds the member as a peer of the consensus server, reads the commit index,
  and writes the membership record: key \<open>path.Join("_etcd/machines", name)\<close>, value
  \<open>raft=<raftURL>&etcd=<etcdURL>\<close>, expire time \<open>time.Unix(0, 0)\<close>, index the commit
  index of the server as the peer addition left it. The world it leaves carries the
  three effects.
\<close>

theorem join_accept_side_effects:
  assumes "fst (store_RawGet env (path_Join env ''_etcd/machines'' n) (etcdStore w)) = None"
    and "machineNum env (etcdStore w) (raftServer w) (namesMap w) \<noteq> maxClusterSize env"
  shows "\<exists>reply w'.
           Apply env (JoinCommand n r e) w = Some (reply, w')
           \<and> trace w' = trace w @
               [Store_RawGet (path_Join env ''_etcd/machines'' n), MachineNum,
                AddNameToURL n r e,
                Raft_AddPeer n '''',
                Raft_CommitIndex,
                Store_Set (path_Join env ''_etcd/machines'' n) (''raft='' @ r @ ''&etcd='' @ e)
                  (Unix 0 0) (raft_CommitIndex env (raftServer w'))]
           \<and> namesMap w' = addNameToURL env n r e (namesMap w)
           \<and> raftServer w' = snd (raft_AddPeer env n '''' (raftServer w))
           \<and> etcdStore w' =
               snd (store_Set env (path_Join env ''_etcd/machines'' n)
                     (''raft='' @ r @ ''&etcd='' @ e) (Unix 0 0)
                     (raft_CommitIndex env (raftServer w')) (etcdStore w))"
  unfolding Apply_Join_accept [OF assms] by simp

theorem join_accept_side_effects_witness:
  "fst (store_RawGet example_env (path_Join example_env ''_etcd/machines'' ''n3'')
         (etcdStore (example_world two_machines [''n1'', ''n2'']))) = None
   \<and> machineNum example_env two_machines ([''n1'', ''n2''], 7) [] \<noteq> maxClusterSize example_env
   \<and> map_option (\<lambda>x. (trace (snd x), namesMap (snd x), raftServer (snd x), etcdStore (snd x)))
        (Apply example_env (JoinCommand ''n3'' ''http://r3'' ''http://e3'')
          (example_world two_machines [''n1'', ''n2''])) =
       Some ([Store_RawGet ''_etcd/machines/n3'', MachineNum,
              AddNameToURL ''n3'' ''http://r3'' ''http://e3'',
              Raft_AddPeer ''n3'' '''',
              Raft_CommitIndex,
              Store_Set ''_etcd/machines/n3'' ''raft=http://r3&etcd=http://e3'' (Unix 0 0) 7],
             [(''n3'', ''http://r3'', ''http://e3'')],
             ([''n3'', ''n1'', ''n2''], 7),
             (''_etcd/machines/n3'', ''raft=http://r3&etcd=http://e3'') # two_machines)"
proof -
  let ?w = "example_world two_machines [''n1'', ''n2'']"
  have h1: "fst (store_RawGet example_env (path_Join example_env ''_etcd/machines'' ''n3'')
              (etcdStore ?w)) = None"
    by (simp add: example_defs)
  have h2: "machineNum example_env (etcdStore ?w) (raftServer ?w) (namesMap ?w) \<noteq>
              maxClusterSize example_env"
    by (simp add: example_defs)
  show ?thesis
    using h1 h2 join_accept_side_effects [OF h1 h2, of "''http://r3''" "''http://e3''"]
    by (simp add: example_defs call_def Let_def)
qed

text \<open>
  C4: for every accepted Join command whose peer addition fails with an error, \<open>Apply\<close>
  does not roll back. The registration in the routing directory, made before the peer
  addition, stays; the membership record is still written after it; no call undoes
  either; and the error of the peer addition is the error of the reply.
\<close>

theorem join_addpeer_failure_no_rollback:
  assumes "fst (store_RawGet env (path_Join env ''_etcd/machines'' n) (etcdStore w)) = None"
    and "machineNum env (etcdStore w) (raftServer w) (namesMap w) \<noteq> maxClusterSize env"
    and "fst (raft_AddPeer env n '''' (raftServer w)) = Some err"
  shows "\<exists>payload w'.
           Apply env (JoinCommand n r e) w = Some ((payload, Some err), w')
           \<and> namesMap w' = addNameToURL env n r e (namesMap w)
           \<and> etcdStore w' =
               snd (store_Set env (path_Join env ''_etcd/machines'' n)
                     (''raft='' @ r @ ''&etcd='' @ e) (Unix 0 0)
                     (raft_CommitIndex env (raftServer w')) (etcdStore w))
           \<and> trace w' = trace w @
               [Store_RawGet (path_Join env ''_etcd/machines'' n), MachineNum,
                AddNameToURL n r e, Raft_AddPeer n '''', Raft_CommitIndex,
                Store_Set (path_Join env ''_etcd/machines'' n) (''raft='' @ r @ ''&etcd='' @ e)
                  (Unix 0 0) (raft_CommitIndex env (raftServer w'))]"
  unfolding Apply_Join_accept [OF assms(1,2)] using assms(3) by simp

theorem join_addpeer_failure_no_rollback_witness:
  "fst (store_RawGet example_env (path_Join example_env ''_etcd/machines'' ''n2'')
         (etcdStore (example_world [] [''n1'', ''n2'']))) = None
   \<and> machineNum example_env [] ([''n1'', ''n2''], 7) [] \<noteq> maxClusterSize example_env
   \<and> fst (raft_AddPeer example_env ''n2'' '''' ([''n1'', ''n2''], 7)) = Some (Foreign ''duplicate peer'')
   \<and> map_option (\<lambda>x. (snd (fst x), namesMap (snd x), raftServer (snd x), etcdStore (snd x)))
        (Apply example_env (JoinCommand ''n2'' ''r2'' ''e2'') (example_world [] [''n1'', ''n2''])) =
       Some (Some (Foreign ''duplicate peer''), [(''n2'', ''r2'', ''e2'')], ([''n1'', ''n2''], 7),
             [(''_etcd/machines/n2'', ''raft=r2&etcd=e2'')])"
proof -
  let ?w = "example_world [] [''n1'', ''n2'']"
  have h1: "fst (store_RawGet example_env (path_Join example_env ''_etcd/machines'' ''n2'')
              (etcdStore ?w)) = None"
    by (simp add: example_defs)
  have h2: "machineNum example_env (etcdStore ?w) (raftServer ?w) (namesMap ?w) \<noteq>
              maxClusterSize example_env"
    by (simp add: example_defs)
  have h3: "fst (raft_AddPeer example_env ''n2'' '''' (raftServer ?w)) = Some (Foreign ''duplicate peer'')"
    by (simp add: example_defs)
  show ?thesis
    using h1 h2 h3 join_addpeer_failure_no_rollback [OF h1 h2 h3, of "''r2''" "''e2''"]
    by (simp add: example_defs call_def Let_def)
qed

text \<open>
  C9: on the accepted path the payload of the reply is \<open>join success\<close> whatever the peer
  addition returned, and the error of the reply is the one the peer addition returned.
  So when the peer addition fails the success payload comes paired with that error, and
  the payload alone is the same as that of a Join whose peer addition succeeded.
\<close>

theorem join_addpeer_failure_success_payload:
  assumes "fst (store_RawGet env (path_Join env ''_etcd/machines'' n) (etcdStore w)) = None"
    and "machineNum env (etcdStore w) (raftServer w) (namesMap w) \<noteq> maxClusterSize env"
  shows "map_option fst (Apply env (JoinCommand n r e) w) =
           Some (Some ''join success'', fst (raft_AddPeer env n '''' (raftServer w)))
         \<and> (\<forall>err. fst (raft_AddPeer env n '''' (raftServer w)) = Some err \<longrightarrow>
               map_option fst (Apply env (JoinCommand n r e) w) =
                 Some (Some ''join success'', Some err))"
  unfolding Apply_Join_accept [OF assms] by simp

theorem join_addpeer_failure_success_payload_witness:
  "fst (store_RawGet example_env (path_Join example_env ''_etcd/machines'' ''n9'')
         (etcdStore (example_world [] [''n9'']))) = None
   \<and> machineNum example_env [] ([''n9''], 7) [] \<noteq> maxClusterSize example_env
   \<and> fst (raft_AddPeer example_env ''n9'' '''' ([''n9''], 7)) = Some (Foreign ''duplicate peer'')
   \<and> map_option fst (Apply example_env (JoinCommand ''n9'' ''r9'' ''e9'') (example_world [] [''n9''])) =
       Some (Some ''join success'', Some (Foreign ''duplicate peer''))
   \<and> map_option (\<lambda>x. fst (fst x))
        (Apply example_env (JoinCommand ''n9'' ''r9'' ''e9'') (example_world [] [''n9''])) =
     map_option (\<lambda>x. fst (fst x))
        (Apply example_env (JoinCommand ''n9'' ''r9'' ''e9'') (example_world [] []))"
proof -
  let ?w = "example_world [] [''n9'']"
  have h1: "fst (store_RawGet example_env (path_Join example_env ''_etcd/machines'' ''n9'')
              (etcdStore ?w)) = None"
    by (simp add: example_defs)
  have h2: "machineNum example_env (etcdStore ?w) (raftServer ?w) (namesMap ?w) \<noteq>
              maxClusterSize example_env"
    by (simp add: example_defs)
  show ?thesis
    using h1 h2 join_addpeer_failure_success_payload [OF h1 h2, of "''r9''" "''e9''"]
    by (simp add: example_defs call_def Let_def)
qed

text \<open>
  C10: the lookup's error plays no part. Whatever error comes with it, a response that
  is not \<open>nil\<close> gives the immediate success of a replay; and a \<open>nil\<close> response that
  comes with an error gives exactly what a store without the record and without an
  error gives, the path of a fresh Join.
\<close>

theorem join_rawget_error_discarded:
  "(\<forall>resp err. store_RawGet env (path_Join env ''_etcd/machines'' n) (etcdStore w) = (Some resp, err) \<longrightarrow>
      Apply env (JoinCommand n r e) w =
        Some ((Some ''join success'', None),
              w\<lparr>trace := trace w @ [Store_RawGet (path_Join env ''_etcd/machines'' n)]\<rparr>))
   \<and> (\<forall>err. store_RawGet env (path_Join env ''_etcd/machines'' n) (etcdStore w) = (None, err) \<longrightarrow>
      Apply env (JoinCommand n r e) w =
        Apply (env\<lparr>store_RawGet := \<lambda>k st. (None, None)\<rparr>) (JoinCommand n r e) w)"
  by (simp add: call_def Let_def case_prod_beta)

theorem join_rawget_error_discarded_witness:
  "store_RawGet (example_env\<lparr>store_RawGet := \<lambda>k st. (Some ''half a record'', Some (Foreign ''i/o''))\<rparr>)
     (path_Join example_env ''_etcd/machines'' ''n1'') [] = (Some ''half a record'', Some (Foreign ''i/o''))
   \<and> map_option fst
       (Apply (example_env\<lparr>store_RawGet := \<lambda>k st. (Some ''half a record'', Some (Foreign ''i/o''))\<rparr>)
          (JoinCommand ''n1'' ''r1'' ''e1'') (example_world [] [])) = Some (Some ''join success'', None)
   \<and> store_RawGet example_env (path_Join example_env ''_etcd/machines'' ''n1'') [] =
       (None, Some (EtcdError 100 ''_etcd/machines/n1''))
   \<and> Apply example_env (JoinCommand ''n1'' ''r1'' ''e1'') (example_world [] []) =
       Apply (example_env\<lparr>store_RawGet := \<lambda>k st. (None, None)\<rparr>)
         (JoinCommand ''n1'' ''r1'' ''e1'') (example_world [] [])
   \<and> map_option (\<lambda>x. (fst x, etcdStore (snd x)))
       (Apply example_env (JoinCommand ''n1'' ''r1'' ''e1'') (example_world [] [])) =
       Some ((Some ''join success'', None), [(''_etcd/machines/n1'', ''raft=r1&etcd=e1'')])"
  using join_rawget_error_discarded
      [of "example_env\<lparr>store_RawGet := \<lambda>k st. (Some ''half a record'', Some (Foreign ''i/o''))\<rparr>"
          "''n1''" "example_world [] []" "''r1''" "''e1''"]
    join_rawget_error_discarded [of example_env "''n1''" "example_world [] []" "''r1''" "''e1''"]
  by (simp add: example_defs call_def Let_def)

subsection \<open>Watch\<close>

lemma Apply_Watch_delivered:
  assumes "deliveries w (watchers w) = res # later"
  shows "Apply env (WatchCommand key sinceIndex) w =
           Some ((case res of
                    None \<Rightarrow> (None, Some (Errorf ''Clearing watch''))
                  | Some r \<Rightarrow> json_Marshal env r),
                 w\<lparr>watchers := Suc (watchers w),
                   etcdStore := store_AddWatcher env key (watchers w) sinceIndex (etcdStore w),
                   deliveries := (deliveries w)(watchers w := later),
                   trace := trace w @
                     [Store_NewWatcher, Store_AddWatcher key (watchers w) sinceIndex,
                      Chan_Receive (watchers w)]\<rparr>)"
  using assms by (cases res) (simp_all add: WatchCommand_Apply_def call_def Let_def)

lemma Apply_Watch_blocked:
  assumes "deliveries w (watchers w) = []"
  shows "Apply env (WatchCommand key sinceIndex) w = None"
  using assms by (simp add: WatchCommand_Apply_def call_def Let_def)

text \<open>
  C5: for every Watch command whose watcher receives the \<open>nil\<close> delivery, \<open>Apply\<close>
  returns the error \<open>Clearing watch\<close> and no payload. A delivery that is a change event
  gives what \<open>json.Marshal\<close> gives for it; unless the encoder itself fails with the very
  error \<open>Clearing watch\<close>, that reply differs from the reply of a cleared watch, and when
  the event serializes the reply has no error at all.
\<close>

theorem watch_cleared:
  "(deliveries w (watchers w) = None # later \<longrightarrow>
      map_option fst (Apply env (WatchCommand key sinceIndex) w) =
        Some (None, Some (Errorf ''Clearing watch'')))
   \<and> (deliveries w (watchers w) = Some r # later
        \<and> snd (json_Marshal env r) \<noteq> Some (Errorf ''Clearing watch'') \<longrightarrow>
      map_option fst (Apply env (WatchCommand key sinceIndex) w) = Some (json_Marshal env r)
      \<and> map_option fst (Apply env (WatchCommand key sinceIndex) w) \<noteq>
          Some (None, Some (Errorf ''Clearing watch'')))"
proof (intro conjI impI)
  assume "deliveries w (watchers w) = None # later"
  then show "map_option fst (Apply env (WatchCommand key sinceIndex) w) =
      Some (None, Some (Errorf ''Clearing watch''))"
    by (simp add: Apply_Watch_delivered del: Apply.simps)
next
  assume a: "deliveries w (watchers w) = Some r # later
    \<and> snd (json_Marshal env r) \<noteq> Some (Errorf ''Clearing watch'')"
  then show reply: "map_option fst (Apply env (WatchCommand key sinceIndex) w) = Some (json_Marshal env r)"
    by (simp add: Apply_Watch_delivered del: Apply.simps)
  have "json_Marshal env r \<noteq> (None, Some (Errorf ''Clearing watch''))"
    using a by (cases "json_Marshal env r") auto
  then show "map_option fst (Apply env (WatchCommand key sinceIndex) w) \<noteq>
      Some (None, Some (Errorf ''Clearing watch''))"
    unfolding reply by simp
qed

theorem watch_cleared_witness:
  "deliveries ((example_world [] [])\<lparr>deliveries := (\<lambda>n. [None])\<rparr>)
     (watchers ((example_world [] [])\<lparr>deliveries := (\<lambda>n. [None])\<rparr>)) = None # []
   \<and> map_option fst (Apply example_env (WatchCommand ''foo'' 0)
        ((example_world [] [])\<lparr>deliveries := (\<lambda>n. [None])\<rparr>)) =
       Some (None, Some (Errorf ''Clearing watch''))
   \<and> deliveries ((example_world [] [])\<lparr>deliveries := (\<lambda>n. [Some ''set foo''])\<rparr>)
       (watchers ((example_world [] [])\<lparr>deliveries := (\<lambda>n. [Some ''set foo''])\<rparr>)) = Some ''set foo'' # []
   \<and> snd (json_Marshal example_env ''set foo'') \<noteq> Some (Errorf ''Clearing watch'')
   \<and> map_option fst (Apply example_env (WatchCommand ''foo'' 0)
        ((example_world [] [])\<lparr>deliveries := (\<lambda>n. [Some ''set foo''])\<rparr>)) =
       Some (Some ''{set foo}'', None)"
  using watch_cleared [of "(example_world [] [])\<lparr>deliveries := (\<lambda>n. [None])\<rparr>" "[]"
          example_env "''foo''" 0 "''unused''"]
    watch_cleared [of "(example_world [] [])\<lparr>deliveries := (\<lambda>n. [Some ''set foo''])\<rparr>" "[]"
          example_env "''foo''" 0 "''set foo''"]
  by (simp add: example_defs WatchCommand_Apply_def call_def Let_def)

text \<open>
  C7: for every Watch command, whatever is delivered and also when nothing is, \<open>Apply\<close>
  creates one watcher, registers it once at the store with the command's key and
  sinceIndex as they are, and receives once from the watcher's channel. If nothing is
  ever delivered it stays in the receive and does not return, with the watcher
  registered. If \<open>nil\<close> is delivered it returns the error \<open>Clearing watch\<close>. If a change
  event is delivered it returns what \<open>json.Marshal\<close> returns for that event. In both
  cases it has taken that one delivery from the channel and no other.
\<close>

theorem watch_registers_and_waits:
  "(deliveries w (watchers w) = [] \<longrightarrow> Apply env (WatchCommand key sinceIndex) w = None)
   \<and> (deliveries w (watchers w) = Some r # later \<longrightarrow>
        Apply env (WatchCommand key sinceIndex) w =
          Some (json_Marshal env r,
                w\<lparr>watchers := Suc (watchers w),
                  etcdStore := store_AddWatcher env key (watchers w) sinceIndex (etcdStore w),
                  deliveries := (deliveries w)(watchers w := later),
                  trace := trace w @
                    [Store_NewWatcher, Store_AddWatcher key (watchers w) sinceIndex,
                     Chan_Receive (watchers w)]\<rparr>))
   \<and> (deliveries w (watchers w) = None # later \<longrightarrow>
        Apply env (WatchCommand key sinceIndex) w =
          Some ((None, Some (Errorf ''Clearing watch'')),
                w\<lparr>watchers := Suc (watchers w),
                  etcdStore := store_AddWatcher env key (watchers w) sinceIndex (etcdStore w),
                  deliveries := (deliveries w)(watchers w := later),
                  trace := trace w @
                    [Store_NewWatcher, Store_AddWatcher key (watchers w) sinceIndex,
                     Chan_Receive (watchers w)]\<rparr>))
   \<and> (deliveries w (watchers w) = [] \<longrightarrow>
        WatchCommand_Apply env key sinceIndex w =
          Blocks (w\<lparr>watchers := Suc (watchers w),
                    etcdStore := store_AddWatcher env key (watchers w) sinceIndex (etcdStore w),
                    trace := trace w @
                      [Store_NewWatcher, Store_AddWatcher key (watchers w) sinceIndex,
                       Chan_Receive (watchers w)]\<rparr>))
   \<and> Apply env (WatchCommand key sinceIndex) w =
        (case WatchCommand_Apply env key sinceIndex w of
           Returns rep w' \<Rightarrow> Some (rep, w')
         | Blocks w' \<Rightarrow> None)"
proof (intro conjI impI)
  assume "deliveries w (watchers w) = []"
  then show "Apply env (WatchCommand key sinceIndex) w = None"
    by (rule Apply_Watch_blocked)
next
  assume "deliveries w (watchers w) = Some r # later"
  then show "Apply env (WatchCommand key sinceIndex) w =
          Some (json_Marshal env r,
                w\<lparr>watchers := Suc (watchers w),
                  etcdStore := store_AddWatcher env key (watchers w) sinceIndex (etcdStore w),
                  deliveries := (deliveries w)(watchers w := later),
                  trace := trace w @
                    [Store_NewWatcher, Store_AddWatcher key (watchers w) sinceIndex,
                     Chan_Receive (watchers w)]\<rparr>)"
    by (simp add: Apply_Watch_delivered del: Apply.simps)
next
  assume "deliveries w (watchers w) = None # later"
  then show "Apply env (WatchCommand key sinceIndex) w =
          Some ((None, Some (Errorf ''Clearing watch'')),
                w\<lparr>watchers := Suc (watchers w),
                  etcdStore := store_AddWatcher env key (watchers w) sinceIndex (etcdStore w),
                  deliveries := (deliveries w)(watchers w := later),
                  trace := trace w @
                    [Store_NewWatcher, Store_AddWatcher key (watchers w) sinceIndex,
                     Chan_Receive (watchers w)]\<rparr>)"
    by (simp add: Apply_Watch_delivered del: Apply.simps)
next
  assume "deliveries w (watchers w) = []"
  then show "WatchCommand_Apply env key sinceIndex w =
          Blocks (w\<lparr>watchers := Suc (watchers w),
                    etcdStore := store_AddWatcher env key (watchers w) sinceIndex (etcdStore w),
                    trace := trace w @
                      [Store_NewWatcher, Store_AddWatcher key (watchers w) sinceIndex,
                       Chan_Receive (watchers w)]\<rparr>)"
    by (simp add: WatchCommand_Apply_def call_def Let_def)
next
  show "Apply env (WatchCommand key sinceIndex) w =
        (case WatchCommand_Apply env key sinceIndex w of
           Returns rep w' \<Rightarrow> Some (rep, w')
         | Blocks w' \<Rightarrow> None)"
    by simp
qed

theorem watch_registers_and_waits_witness:
  "deliveries (example_world [] []) (watchers (example_world [] [])) = []
   \<and> Apply example_env (WatchCommand ''foo'' 5) (example_world [] []) = None
   \<and> WatchCommand_Apply example_env ''foo'' 5 (example_world [] []) =
       Blocks \<lparr> etcdStore = [], raftServer = ([], 7), namesMap = [], watchers = 1,
                deliveries = (\<lambda>n. []),
                trace = [Store_NewWatcher, Store_AddWatcher ''foo'' 0 5, Chan_Receive 0] \<rparr>
   \<and> deliveries ((example_world [] [])\<lparr>deliveries := (\<lambda>n. [Some ''set foo'', Some ''delete foo''])\<rparr>)
       (watchers ((example_world [] [])\<lparr>deliveries := (\<lambda>n. [Some ''set foo'', Some ''delete foo''])\<rparr>))
       = Some ''set foo'' # [Some ''delete foo'']
   \<and> map_option (\<lambda>x. (fst x, watchers (snd x), trace (snd x), deliveries (snd x) 0))
        (Apply example_env (WatchCommand ''foo'' 5)
          ((example_world [] [])\<lparr>deliveries := (\<lambda>n. [Some ''set foo'', Some ''delete foo''])\<rparr>)) =
       Some ((Some ''{set foo}'', None), 1,
             [Store_NewWatcher, Store_AddWatcher ''foo'' 0 5, Chan_Receive 0],
             [Some ''delete foo''])
   \<and> deliveries ((example_world [] [])\<lparr>deliveries := (\<lambda>n. [None])\<rparr>)
       (watchers ((example_world [] [])\<lparr>deliveries := (\<lambda>n. [None])\<rparr>)) = None # []
   \<and> map_option (\<lambda>x. (fst x, watchers (snd x), trace (snd x), deliveries (snd x) 0))
        (Apply example_env (WatchCommand ''foo'' 5)
          ((example_world [] [])\<lparr>deliveries := (\<lambda>n. [None])\<rparr>)) =
       Some ((None, Some (Errorf ''Clearing watch'')), 1,
             [Store_NewWatcher, Store_AddWatcher ''foo'' 0 5, Chan_Receive 0],
             [])"
  using watch_registers_and_waits [of "example_world [] []" example_env "''foo''" 5 "''unused''" "[]"]
    watch_registers_and_waits
      [of "(example_world [] [])\<lparr>deliveries := (\<lambda>n. [Some ''set foo'', Some ''delete foo''])\<rparr>"
          example_env "''foo''" 5 "''set foo''" "[Some ''delete foo'']"]
    watch_registers_and_waits
      [of "(example_world [] [])\<lparr>deliveries := (\<lambda>n. [None])\<rparr>"
          example_env "''foo''" 5 "''unused''" "[]"]
  by (simp add: example_defs WatchCommand_Apply_def call_def Let_def)

subsection \<open>The index of the mutating commands\<close>

text \<open>
  C6: Set, TestAndSet and Delete read the commit index from the consensus server and
  hand exactly that value to the store operation; the membership record of an accepted
  Join is set with the commit index read from the server after the peer addition. The
  index is a function of the server alone. Get makes one call, the store's \<open>Get\<close> with
  the key and no index, and leaves the world as it is.
\<close>

theorem mutations_carry_commit_index:
  "Apply env (SetCommand key val expireTime) w =
     Some (fst (store_Set env key val expireTime (raft_CommitIndex env (raftServer w)) (etcdStore w)),
           w\<lparr>etcdStore :=
               snd (store_Set env key val expireTime (raft_CommitIndex env (raftServer w)) (etcdStore w)),
             trace := trace w @
               [Raft_CommitIndex, Store_Set key val expireTime (raft_CommitIndex env (raftServer w))]\<rparr>)
   \<and> Apply env (TestAndSetCommand key val prevValue expireTime) w =
     Some (fst (store_TestAndSet env key prevValue val expireTime
                  (raft_CommitIndex env (raftServer w)) (etcdStore w)),
           w\<lparr>etcdStore :=
               snd (store_TestAndSet env key prevValue val expireTime
                      (raft_CommitIndex env (raftServer w)) (etcdStore w)),
             trace := trace w @
               [Raft_CommitIndex,
                Store_TestAndSet key prevValue val expireTime (raft_CommitIndex env (raftServer w))]\<rparr>)
   \<and> Apply env (DeleteCommand key) w =
     Some (fst (store_Delete env key (raft_CommitIndex env (raftServer w)) (etcdStore w)),
           w\<lparr>etcdStore := snd (store_Delete env key (raft_CommitIndex env (raftServer w)) (etcdStore w)),
             trace := trace w @
               [Raft_CommitIndex, Store_Delete key (raft_CommitIndex env (raftServer w))]\<rparr>)
   \<and> (fst (store_RawGet env (path_Join env ''_etcd/machines'' n) (etcdStore w)) = None
        \<and> machineNum env (etcdStore w) (raftServer w) (namesMap w) \<noteq> maxClusterSize env \<longrightarrow>
      (\<exists>reply w'. Apply env (JoinCommand n r e) w = Some (reply, w')
         \<and> drop (length (trace w) + 4) (trace w') =
             [Raft_CommitIndex,
              Store_Set (path_Join env ''_etcd/machines'' n) (''raft='' @ r @ ''&etcd='' @ e)
                (Unix 0 0) (raft_CommitIndex env (raftServer w'))]
         \<and> etcdStore w' =
             snd (store_Set env (path_Join env ''_etcd/machines'' n)
                   (''raft='' @ r @ ''&etcd='' @ e) (Unix 0 0)
                   (raft_CommitIndex env (raftServer w')) (etcdStore w))))
   \<and> Apply env (GetCommand key) w =
     Some (store_Get env key (etcdStore w), w\<lparr>trace := trace w @ [Store_Get key]\<rparr>)"
proof (intro conjI impI)
  show "Apply env (SetCommand key val expireTime) w =
     Some (fst (store_Set env key val expireTime (raft_CommitIndex env (raftServer w)) (etcdStore w)),
           w\<lparr>etcdStore :=
               snd (store_Set env key val expireTime (raft_CommitIndex env (raftServer w)) (etcdStore w)),
             trace := trace w @
               [Raft_CommitIndex, Store_Set key val expireTime (raft_CommitIndex env (raftServer w))]\<rparr>)"
    by (simp add: call_def Let_def case_prod_beta)
  show "Apply env (TestAndSetCommand key val prevValue expireTime) w =
     Some (fst (store_TestAndSet env key prevValue val expireTime
                  (raft_CommitIndex env (raftServer w)) (etcdStore w)),
           w\<lparr>etcdStore :=
               snd (store_TestAndSet env key prevValue val expireTime
                      (raft_CommitIndex env (raftServer w)) (etcdStore w)),
             trace := trace w @
               [Raft_CommitIndex,
                Store_TestAndSet key prevValue val expireTime (raft_CommitIndex env (raftServer w))]\<rparr>)"
    by (simp add: call_def Let_def case_prod_beta)
  show "Apply env (DeleteCommand key) w =
     Some (fst (store_Delete env key (raft_CommitIndex env (raftServer w)) (etcdStore w)),
           w\<lparr>etcdStore := snd (store_Delete env key (raft_CommitIndex env (raftServer w)) (etcdStore w)),
             trace := trace w @
               [Raft_CommitIndex, Store_Delete key (raft_CommitIndex env (raftServer w))]\<rparr>)"
    by (simp add: call_def Let_def case_prod_beta)
  show "Apply env (GetCommand key) w =
     Some (store_Get env key (etcdStore w), w\<lparr>trace := trace w @ [Store_Get key]\<rparr>)"
    by (simp add: call_def Let_def)
next
  assume a: "fst (store_RawGet env (path_Join env ''_etcd/machines'' n) (etcdStore w)) = None
        \<and> machineNum env (etcdStore w) (raftServer w) (namesMap w) \<noteq> maxClusterSize env"
  then have h1: "fst (store_RawGet env (path_Join env ''_etcd/machines'' n) (etcdStore w)) = None"
    and h2: "machineNum env (etcdStore w) (raftServer w) (namesMap w) \<noteq> maxClusterSize env"
    by simp_all
  show "\<exists>reply w'. Apply env (JoinCommand n r e) w = Some (reply, w')
         \<and> drop (length (trace w) + 4) (trace w') =
             [Raft_CommitIndex,
              Store_Set (path_Join env ''_etcd/machines'' n) (''raft='' @ r @ ''&etcd='' @ e)
                (Unix 0 0) (raft_CommitIndex env (raftServer w'))]
         \<and> etcdStore w' =
             snd (store_Set env (path_Join env ''_etcd/machines'' n)
                   (''raft='' @ r @ ''&etcd='' @ e) (Unix 0 0)
                   (raft_CommitIndex env (raftServer w')) (etcdStore w))"
    unfolding Apply_Join_accept [OF h1 h2] by simp
qed

theorem mutations_carry_commit_index_witness:
  "Apply example_env (SetCommand ''a'' ''1'' (Unix 0 0)) (example_world [] []) =
     Some ((Some ''1'', None),
           \<lparr> etcdStore = [(''a'', ''1'')], raftServer = ([], 7), namesMap = [], watchers = 0,
             deliveries = (\<lambda>n. []), trace = [Raft_CommitIndex, Store_Set ''a'' ''1'' (Unix 0 0) 7] \<rparr>)
   \<and> map_option (\<lambda>x. (fst x, trace (snd x)))
       (Apply example_env (TestAndSetCommand ''a'' ''2'' ''1'' (Unix 0 0)) (example_world [(''a'', ''1'')] [])) =
     Some ((Some ''2'', None), [Raft_CommitIndex, Store_TestAndSet ''a'' ''1'' ''2'' (Unix 0 0) 7])
   \<and> map_option (\<lambda>x. (fst x, trace (snd x), etcdStore (snd x)))
       (Apply example_env (DeleteCommand ''a'') (example_world [(''a'', ''1'')] [])) =
     Some ((Some ''1'', None), [Raft_CommitIndex, Store_Delete ''a'' 7], [])
   \<and> fst (store_RawGet example_env (path_Join example_env ''_etcd/machines'' ''n1'')
          (etcdStore (example_world [] []))) = None
   \<and> machineNum example_env [] ([], 7) [] \<noteq> maxClusterSize example_env
   \<and> map_option (\<lambda>x. drop 4 (trace (snd x)))
       (Apply example_env (JoinCommand ''n1'' ''r1'' ''e1'') (example_world [] [])) =
     Some [Raft_CommitIndex, Store_Set ''_etcd/machines/n1'' ''raft=r1&etcd=e1'' (Unix 0 0) 7]
   \<and> Apply example_env (GetCommand ''a'') (example_world [(''a'', ''1'')] []) =
     Some ((Some ''1'', None),
           \<lparr> etcdStore = [(''a'', ''1'')], raftServer = ([], 7), namesMap = [], watchers = 0,
             deliveries = (\<lambda>n. []), trace = [Store_Get ''a''] \<rparr>)"
  using mutations_carry_commit_index
      [of example_env "''a''" "''1''" "Unix 0 0" "example_world [] []" "''1''" "''n1''" "''r1''" "''e1''"]
  by (simp add: example_defs call_def Let_def)

subsection \<open>Wire names and command names\<close>

lemmas tag_defs = wire_names_def json_name_def StructTag_Get_def tag_name_char_def Unquote_def
  isValidTag_def isLetterOrDigit_def exported_def List.map_filter_def

text \<open>
  C8: the fields go on the wire as \<open>key\<close>, \<open>value\<close>, \<open>expireTime\<close>, \<open>sinceIndex\<close>,
  \<open>name\<close>, \<open>raftURL\<close> and \<open>etcdURL\<close>, with one exception: the tag of TestAndSet's
  \<open>PrevValue\<close> field has a space and no quotes behind the colon, the tag lookup finds
  no \<open>json\<close> entry in it, and the field goes out under its Go name \<open>PrevValue\<close>, not
  under \<open>prevValue\<close>. The name of each command is \<open>etcd:\<close> followed by the name of its
  operation, and the six names differ from one another.
\<close>

theorem wire_names_and_command_names:
  "wire_names (SetCommand k v t) = [''key'', ''value'', ''expireTime'']
   \<and> wire_names (TestAndSetCommand k v p t) = [''key'', ''value'', ''PrevValue'', ''expireTime'']
   \<and> wire_names (GetCommand k) = [''key'']
   \<and> wire_names (DeleteCommand k) = [''key'']
   \<and> wire_names (WatchCommand k i) = [''key'', ''sinceIndex'']
   \<and> wire_names (JoinCommand n r e) = [''name'', ''raftURL'', ''etcdURL'']
   \<and> StructTag_Lookup ''json: prevValue'' ''json'' = None
   \<and> ''prevValue'' \<notin> set (wire_names (TestAndSetCommand k v p t))
   \<and> map CommandName
        [SetCommand k1 v1 t1, TestAndSetCommand k2 v2 p2 t2, GetCommand k3, DeleteCommand k4,
         WatchCommand k5 i5, JoinCommand n6 r6 e6] =
       map (\<lambda>operation. commandPrefix @ operation)
        [''set'', ''testAndSet'', ''get'', ''delete'', ''watch'', ''join'']
   \<and> commandPrefix = ''etcd:''
   \<and> distinct (map CommandName
        [SetCommand k1 v1 t1, TestAndSetCommand k2 v2 p2 t2, GetCommand k3, DeleteCommand k4,
         WatchCommand k5 i5, JoinCommand n6 r6 e6])"
proof (intro conjI)
  show "wire_names (SetCommand k v t) = [''key'', ''value'', ''expireTime'']"
    by (simp add: tag_defs)
  show tas: "wire_names (TestAndSetCommand k v p t) = [''key'', ''value'', ''PrevValue'', ''expireTime'']"
    by (simp add: tag_defs)
  show "wire_names (GetCommand k) = [''key'']"
    by (simp add: tag_defs)
  show "wire_names (DeleteCommand k) = [''key'']"
    by (simp add: tag_defs)
  show "wire_names (WatchCommand k i) = [''key'', ''sinceIndex'']"
    by (simp add: tag_defs)
  show "wire_names (JoinCommand n r e) = [''name'', ''raftURL'', ''etcdURL'']"
    by (simp add: tag_defs)
  show "StructTag_Lookup ''json: prevValue'' ''json'' = None"
    by (simp add: tag_defs)
  show "''prevValue'' \<notin> set (wire_names (TestAndSetCommand k v p t))"
    unfolding tas by simp
  show "map CommandName
        [SetCommand k1 v1 t1, TestAndSetCommand k2 v2 p2 t2, GetCommand k3, DeleteCommand k4,
         WatchCommand k5 i5, JoinCommand n6 r6 e6] =
       map (\<lambda>operation. commandPrefix @ operation)
        [''set'', ''testAndSet'', ''get'', ''delete'', ''watch'', ''join'']"
    by (simp add: commandName_def)
  show "commandPrefix = ''etcd:''"
    by (simp add: commandPrefix_def)
  show "distinct (map CommandName
        [SetCommand k1 v1 t1, TestAndSetCommand k2 v2 p2 t2, GetCommand k3, DeleteCommand k4,
         WatchCommand k5 i5, JoinCommand n6 r6 e6])"
    by (simp add: commandName_def commandPrefix_def)
qed

theorem wire_names_and_command_names_witness:
  "wire_names (TestAndSetCommand ''a'' ''2'' ''1'' (Unix 0 0)) =
     [''key'', ''value'', ''PrevValue'', ''expireTime'']
   \<and> CommandName (TestAndSetCommand ''a'' ''2'' ''1'' (Unix 0 0)) = ''etcd:testAndSet''
   \<and> CommandName (JoinCommand ''n1'' ''r1'' ''e1'') = ''etcd:join''
   \<and> CommandName (SetCommand ''a'' ''1'' (Unix 0 0)) \<noteq> CommandName (TestAndSetCommand ''a'' ''2'' ''1'' (Unix 0 0))"
  using wire_names_and_command_names
      [of "''a''" "''2''" "Unix 0 0" "''1''" 0 "''n1''" "''r1''" "''e1''"
          "''a''" "''1''" "Unix 0 0" "''a''" "''2''" "''1''" "Unix 0 0" "''a''" "''a''" "''a''" 0
          "''n1''" "''r1''" "''e1''"]
  by (simp add: commandName_def commandPrefix_def)

end
